theory Spec2Isabelle
  imports Complex_Main "HOL-Library.Sublist"
begin

section \<open>The notebooks' view of the modelling framework\<close>

text \<open>
  The two notebooks (the mixer tutorial and the heat-exchanger example) are straight-line
  scripts over an external process-modelling framework and an external nonlinear solver.
  Nothing of the framework is part of the notebooks, so every call into it is a field of
  the record \<open>framework\<close> below and the notebooks are functions of that record. The model
  object \<open>m\<close> that the framework owns has the abstract type \<open>'m\<close>.

  A component of the model is addressed by the attribute path the notebook writes:
  \<^verbatim>\<open>m.fs.mixer_1.inlet_1.mole_frac_comp[0, "benzene"]\<close> is the path
  \<open>[''fs'', ''mixer_1'', ''inlet_1'', ''mole_frac_comp'', ''0'', ''benzene'']\<close>, and the whole
  model \<^verbatim>\<open>m\<close> is the empty path. Python floats are read as reals.
\<close>

type_synonym path = "string list"

datatype exn = AssertionError | NameError

datatype TerminationCondition =
    TC_unknown | TC_maxTimeLimit | TC_maxIterations | TC_minFunctionValue
  | TC_minStepLength | TC_globallyOptimal | TC_locallyOptimal | TC_feasible
  | TC_optimal | TC_maxEvaluations | TC_other | TC_unbounded | TC_infeasible
  | TC_infeasibleOrUnbounded | TC_invalidProblem | TC_intermediateNonInteger
  | TC_noSolution | TC_solverFailure | TC_internalSolverError | TC_error
  | TC_userInterrupt | TC_resourceInterrupt | TC_licensingProblems

datatype SolverStatus = SS_ok | SS_warning | SS_error | SS_aborted | SS_unknown

record SolverInformation =
  termination_condition :: TerminationCondition
  status :: SolverStatus

record SolverResults =
  solver :: SolverInformation

datatype MomentumMixingType = MMT_none | MMT_minimize | MMT_equality | MMT_minimize_and_equality

record MixerConfig =
  property_package :: path
  num_inlets :: "nat option"
  inlet_list :: "string list option"
  momentum_mixing_type :: MomentumMixingType

record HeatExchangerConfig =
  delta_temperature_callback :: string
  hot_side_name :: string
  cold_side_name :: string
  shell :: path
  tube :: path

datatype component =
    FlowsheetBlock bool
  | BTXParameterBlock string string
  | Iapws95ParameterBlock
  | GenericParameterBlock
  | Mixer MixerConfig
  | HeatExchanger HeatExchangerConfig

text \<open>
  The calls the notebooks make. \<open>attach p c\<close> is the assignment \<^verbatim>\<open>m.p = c(...)\<close>;
  \<open>fix_var\<close>, \<open>unfix_var\<close> are the methods \<^verbatim>\<open>.fix(x)\<close> and \<^verbatim>\<open>.unfix()\<close>;
  \<open>solve s b\<close> is \<^verbatim>\<open>SolverFactory(s).solve(b)\<close>, which returns the results object and
  leaves the solution in the model; \<open>val\<close> reads \<^verbatim>\<open>.value\<close> (or \<^verbatim>\<open>value(...)\<close>).
  A call into the framework is taken to return: the exceptions of a run are those that
  the notebook's own statements raise, a failed \<^verbatim>\<open>assert\<close> or an unbound name.
  Printing and the \<^verbatim>\<open>report()\<close> calls change nothing and are left out.
\<close>

record 'm framework =
  ConcreteModel :: 'm
  attach :: "path \<Rightarrow> component \<Rightarrow> 'm \<Rightarrow> 'm"
  fix_var :: "path \<Rightarrow> real \<Rightarrow> 'm \<Rightarrow> 'm"
  unfix_var :: "path \<Rightarrow> 'm \<Rightarrow> 'm"
  degrees_of_freedom :: "path \<Rightarrow> 'm \<Rightarrow> int"
  initialize :: "path \<Rightarrow> 'm \<Rightarrow> 'm"
  solve :: "string \<Rightarrow> path \<Rightarrow> 'm \<Rightarrow> SolverResults \<times> 'm"
  val :: "path \<Rightarrow> 'm \<Rightarrow> real"
  htpx :: "real \<Rightarrow> real \<Rightarrow> real"

section \<open>The interpreter state and the running of cells\<close>

text \<open>
  The global names of a notebook. A name that no cell has bound yet is \<open>None\<close>, and
  reading it raises \<open>NameError\<close>. The model \<open>m\<close> is bound by the first code cell of
  either notebook, which is where a run starts.
\<close>

record 'm globals =
  m :: 'm
  DOF_initial :: "int option"
  DOF_final :: "int option"
  DOF_init :: "int option"
  h :: "real option"
  opt :: "string option"
  solve_status :: "SolverResults option"
  result :: "SolverResults option"
  molflow_1 :: "real option"
  molflow_2 :: "real option"
  benzene_1 :: "real option"
  toluene_2 :: "real option"
  total_enthalpy_in1 :: "real option"
  total_enthalpy_in2 :: "real option"
  molar_enthalpy_out :: "real option"
  mole_flow_out :: "real option"
  total_enthalpy_out :: "real option"

definition fresh_globals :: "'m \<Rightarrow> 'm globals" where
  "fresh_globals mdl =
     \<lparr> m = mdl, DOF_initial = None, DOF_final = None, DOF_init = None, h = None,
       opt = None, solve_status = None, result = None, molflow_1 = None, molflow_2 = None,
       benzene_1 = None, toluene_2 = None, total_enthalpy_in1 = None,
       total_enthalpy_in2 = None, molar_enthalpy_out = None, mole_flow_out = None,
       total_enthalpy_out = None \<rparr>"

definition lookup_name :: "'a option \<Rightarrow> ('a \<Rightarrow> exn + 'b) \<Rightarrow> exn + 'b" where
  "lookup_name x k = (case x of None \<Rightarrow> Inl NameError | Some v \<Rightarrow> k v)"

definition py_assert :: "bool \<Rightarrow> (exn + 'b) \<Rightarrow> exn + 'b" where
  "py_assert b k = (if b then k else Inl AssertionError)"

text \<open>
  \<^verbatim>\<open>actual == pytest.approx(expected, abs=tol)\<close>: with only \<open>abs\<close> given the relative
  tolerance is not consulted.
\<close>

definition pytest_approx :: "real \<Rightarrow> real \<Rightarrow> real \<Rightarrow> bool" where
  "pytest_approx actual expected tol \<longleftrightarrow> \<bar>actual - expected\<bar> \<le> tol"

text \<open>Cells run top to bottom; the first exception stops the run.\<close>

fun run_cells :: "('s \<Rightarrow> exn + 's) list \<Rightarrow> 's \<Rightarrow> exn + 's" where
  "run_cells [] g = Inr g"
| "run_cells (c # cs) g = (case c g of Inl e \<Rightarrow> Inl e | Inr g' \<Rightarrow> run_cells cs g')"

section \<open>The heat-exchanger notebook\<close>

definition heat_exchanger :: path where
  "heat_exchanger = [''fs'', ''heat_exchanger'']"

definition hx_setup :: "'m framework \<Rightarrow> 'm globals" where
  "hx_setup fw =
     fresh_globals
       (attach fw [''fs'', ''properties_tube''] GenericParameterBlock
         (attach fw [''fs'', ''properties_shell''] Iapws95ParameterBlock
           (attach fw [''fs''] (FlowsheetBlock False) (ConcreteModel fw))))"

definition hx_cell_build :: "'m framework \<Rightarrow> 'm globals \<Rightarrow> exn + 'm globals" where
  "hx_cell_build fw g =
     (let m1 = attach fw heat_exchanger
                 (HeatExchanger
                    \<lparr> delta_temperature_callback = ''delta_temperature_amtd_callback'',
                      hot_side_name = ''shell'', cold_side_name = ''tube'',
                      shell = [''fs'', ''properties_shell''],
                      tube = [''fs'', ''properties_tube''] \<rparr>) (m g)
      in Inr (g\<lparr>m := m1, DOF_initial := Some (degrees_of_freedom fw [] m1)\<rparr>))"

definition hx_cell_assert_dof_initial :: "'m globals \<Rightarrow> exn + 'm globals" where
  "hx_cell_assert_dof_initial g =
     lookup_name (DOF_initial g) (\<lambda>d. py_assert (d = 10) (Inr g))"

definition hx_cell_fix_shell :: "'m framework \<Rightarrow> 'm globals \<Rightarrow> exn + 'm globals" where
  "hx_cell_fix_shell fw g =
     (let h1 = htpx fw 450 101325;
          m1 = fix_var fw (heat_exchanger @ [''shell_inlet'', ''flow_mol'']) 100 (m g);
          m2 = fix_var fw (heat_exchanger @ [''shell_inlet'', ''pressure'']) 101325 m1;
          m3 = fix_var fw (heat_exchanger @ [''shell_inlet'', ''enth_mol'']) h1 m2
      in Inr (g\<lparr>h := Some h1, m := m3, DOF_initial := Some (degrees_of_freedom fw [] m3)\<rparr>))"

definition hx_cell_fix_tube :: "'m framework \<Rightarrow> 'm globals \<Rightarrow> exn + 'm globals" where
  "hx_cell_fix_tube fw g =
     (let m1 = fix_var fw (heat_exchanger @ [''tube_inlet'', ''flow_mol'']) 250 (m g);
          m2 = fix_var fw (heat_exchanger @ [''tube_inlet'', ''mole_frac_comp'', ''0'', ''benzene''])
                 (4 / 10) m1;
          m3 = fix_var fw (heat_exchanger @ [''tube_inlet'', ''mole_frac_comp'', ''0'', ''toluene''])
                 (6 / 10) m2;
          m4 = fix_var fw (heat_exchanger @ [''tube_inlet'', ''pressure'']) 101325 m3;
          m5 = fix_var fw (heat_exchanger @ [''tube_inlet'', ''temperature'', ''0'']) 350 m4
      in Inr (g\<lparr>m := m5, DOF_final := Some (degrees_of_freedom fw [] m5)\<rparr>))"

definition hx_cell_fix_design :: "'m framework \<Rightarrow> 'm globals \<Rightarrow> exn + 'm globals" where
  "hx_cell_fix_design fw g =
     (let m1 = fix_var fw (heat_exchanger @ [''area'']) 50 (m g);
          m2 = fix_var fw (heat_exchanger @ [''overall_heat_transfer_coefficient'', ''0'']) 500 m1
      in Inr (g\<lparr>m := m2, DOF_final := Some (degrees_of_freedom fw [] m2)\<rparr>))"

definition hx_cell_assert_dof_final :: "'m globals \<Rightarrow> exn + 'm globals" where
  "hx_cell_assert_dof_final g =
     lookup_name (DOF_final g) (\<lambda>d. py_assert (d = 0) (Inr g))"

text \<open>
  \<^verbatim>\<open>m.fs.heat_exchanger.initialize(...); opt = SolverFactory('ipopt');
  solve_status = opt.solve(m)\<close>; the report that follows only prints.
\<close>

definition hx_cell_solve_option1 :: "'m framework \<Rightarrow> 'm globals \<Rightarrow> exn + 'm globals" where
  "hx_cell_solve_option1 fw g =
     (let m1 = initialize fw heat_exchanger (m g);
          r = solve fw ''ipopt'' [] m1
      in Inr (g\<lparr>m := snd r, opt := Some ''ipopt'', solve_status := Some (fst r)\<rparr>))"

definition hx_cell_test_option1 :: "'m framework \<Rightarrow> 'm globals \<Rightarrow> exn + 'm globals" where
  "hx_cell_test_option1 fw g =
     lookup_name (solve_status g) (\<lambda>s1.
     py_assert (termination_condition (solver s1) = TC_optimal) (
     lookup_name (solve_status g) (\<lambda>s2.
     py_assert (status (solver s2) = SS_ok) (
     py_assert (pytest_approx
                  (val fw (heat_exchanger @ [''shell'', ''properties_out'', ''0'', ''temperature'']) (m g))
                  (37313 / 100) (1 / 100)) (
     py_assert (pytest_approx
                  (val fw (heat_exchanger @ [''tube'', ''properties_out'', ''0'', ''temperature'']) (m g))
                  (36924 / 100) (1 / 100)) (
     Inr g))))))"

text \<open>
  Option 2: \<^verbatim>\<open>area.unfix()\<close>, then the shell outlet enthalpy is fixed to
  \<^verbatim>\<open>htpx(360*units.K, P = 101325*units.Pa)\<close>.
\<close>

definition hx_cell_respecify :: "'m framework \<Rightarrow> 'm globals \<Rightarrow> exn + 'm globals" where
  "hx_cell_respecify fw g =
     (let m1 = unfix_var fw (heat_exchanger @ [''area'']) (m g);
          m2 = fix_var fw (heat_exchanger @ [''shell_outlet'', ''enth_mol''])
                 (htpx fw 360 101325) m1
      in Inr (g\<lparr>m := m2\<rparr>))"

text \<open>\<^verbatim>\<open>result = opt.solve(m)\<close>.\<close>

definition hx_cell_solve_option2 :: "'m framework \<Rightarrow> 'm globals \<Rightarrow> exn + 'm globals" where
  "hx_cell_solve_option2 fw g =
     lookup_name (opt g) (\<lambda>s.
       let r = solve fw s [] (m g)
       in Inr (g\<lparr>m := snd r, result := Some (fst r)\<rparr>))"

text \<open>
  The testing cell of Option 2, in its two paragraphs: the two assertions under the
  comment "Check if termination condition is optimal", then the two on solved values.
\<close>

definition hx_option2_status_asserts :: "'m globals \<Rightarrow> exn + unit" where
  "hx_option2_status_asserts g =
     lookup_name (solve_status g) (\<lambda>s1.
     py_assert (termination_condition (solver s1) = TC_optimal) (
     lookup_name (solve_status g) (\<lambda>s2.
     py_assert (status (solver s2) = SS_ok) (
     Inr ()))))"

definition hx_option2_value_asserts :: "'m framework \<Rightarrow> 'm globals \<Rightarrow> exn + unit" where
  "hx_option2_value_asserts fw g =
     py_assert (pytest_approx (val fw (heat_exchanger @ [''area'']) (m g))
                  (20026 / 100) (1 / 100)) (
     py_assert (pytest_approx
                  (val fw (heat_exchanger @ [''tube'', ''properties_out'', ''0'', ''temperature'']) (m g))
                  (37127 / 100) (1 / 100)) (
     Inr ()))"

definition hx_cell_test_option2 :: "'m framework \<Rightarrow> 'm globals \<Rightarrow> exn + 'm globals" where
  "hx_cell_test_option2 fw g =
     (case hx_option2_status_asserts g of
        Inl e \<Rightarrow> Inl e
      | Inr _ \<Rightarrow> (case hx_option2_value_asserts fw g of Inl e \<Rightarrow> Inl e | Inr _ \<Rightarrow> Inr g))"

definition hx_cells :: "'m framework \<Rightarrow> ('m globals \<Rightarrow> exn + 'm globals) list" where
  "hx_cells fw =
     [hx_cell_build fw, hx_cell_assert_dof_initial, hx_cell_fix_shell fw, hx_cell_fix_tube fw,
      hx_cell_fix_design fw, hx_cell_assert_dof_final, hx_cell_solve_option1 fw,
      hx_cell_test_option1 fw, hx_cell_respecify fw, hx_cell_solve_option2 fw,
      hx_cell_test_option2 fw]"

definition hx_notebook :: "'m framework \<Rightarrow> exn + 'm globals" where
  "hx_notebook fw = run_cells (hx_cells fw) (hx_setup fw)"

section \<open>The mixer notebook\<close>

definition mixer_1 :: path where
  "mixer_1 = [''fs'', ''mixer_1'']"

definition mixer_2 :: path where
  "mixer_2 = [''fs'', ''mixer_2'']"

definition mx_setup :: "'m framework \<Rightarrow> 'm globals" where
  "mx_setup fw =
     fresh_globals
       (attach fw [''fs'', ''properties''] (BTXParameterBlock ''Liq'' ''Ideal'')
         (attach fw [''fs''] (FlowsheetBlock False) (ConcreteModel fw)))"

subsection \<open>Case 1\<close>

definition mx_cell_build_case1 :: "'m framework \<Rightarrow> 'm globals \<Rightarrow> exn + 'm globals" where
  "mx_cell_build_case1 fw g =
     (let m1 = attach fw mixer_1
                 (Mixer \<lparr> property_package = [''fs'', ''properties''], num_inlets = Some 2,
                          inlet_list = None, momentum_mixing_type = MMT_minimize \<rparr>) (m g)
      in Inr (g\<lparr>m := m1, DOF_initial := Some (degrees_of_freedom fw [] m1)\<rparr>))"

definition mx_cell_assert_dof_initial :: "'m globals \<Rightarrow> exn + 'm globals" where
  "mx_cell_assert_dof_initial g =
     lookup_name (DOF_initial g) (\<lambda>d. py_assert (d = 10) (Inr g))"

definition mx_cell_fix_case1 :: "'m framework \<Rightarrow> 'm globals \<Rightarrow> exn + 'm globals" where
  "mx_cell_fix_case1 fw g =
     (let m1 = fix_var fw (mixer_1 @ [''inlet_1'', ''flow_mol'']) 100 (m g);
          m2 = fix_var fw (mixer_1 @ [''inlet_1'', ''mole_frac_comp'', ''0'', ''benzene'']) 1 m1;
          m3 = fix_var fw (mixer_1 @ [''inlet_1'', ''mole_frac_comp'', ''0'', ''toluene'']) 0 m2;
          m4 = fix_var fw (mixer_1 @ [''inlet_1'', ''pressure'']) 101325 m3;
          m5 = fix_var fw (mixer_1 @ [''inlet_1'', ''temperature'']) 353 m4;
          m6 = fix_var fw (mixer_1 @ [''inlet_2'', ''flow_mol'']) 100 m5;
          m7 = fix_var fw (mixer_1 @ [''inlet_2'', ''mole_frac_comp'', ''0'', ''benzene'']) 0 m6;
          m8 = fix_var fw (mixer_1 @ [''inlet_2'', ''mole_frac_comp'', ''0'', ''toluene'']) 1 m7;
          m9 = fix_var fw (mixer_1 @ [''inlet_2'', ''pressure'']) 202650 m8;
          m10 = fix_var fw (mixer_1 @ [''inlet_2'', ''temperature'']) 356 m9
      in Inr (g\<lparr>m := m10, DOF_final := Some (degrees_of_freedom fw [] m10)\<rparr>))"

definition mx_cell_assert_dof_final :: "'m globals \<Rightarrow> exn + 'm globals" where
  "mx_cell_assert_dof_final g =
     lookup_name (DOF_final g) (\<lambda>d. py_assert (d = 0) (Inr g))"

definition mx_cell_initialize_case1 :: "'m framework \<Rightarrow> 'm globals \<Rightarrow> exn + 'm globals" where
  "mx_cell_initialize_case1 fw g = Inr (g\<lparr>m := initialize fw mixer_1 (m g)\<rparr>)"

text \<open>\<^verbatim>\<open>opt = SolverFactory('ipopt'); result = opt.solve(m, tee=True)\<close>.\<close>

definition mx_cell_solve_case1 :: "'m framework \<Rightarrow> 'm globals \<Rightarrow> exn + 'm globals" where
  "mx_cell_solve_case1 fw g =
     (let r = solve fw ''ipopt'' [] (m g)
      in Inr (g\<lparr>m := snd r, opt := Some ''ipopt'', result := Some (fst r)\<rparr>))"

definition mx_cell_test_solve_case1 :: "'m globals \<Rightarrow> exn + 'm globals" where
  "mx_cell_test_solve_case1 g =
     lookup_name (result g) (\<lambda>r1.
     py_assert (termination_condition (solver r1) = TC_optimal) (
     lookup_name (result g) (\<lambda>r2.
     py_assert (status (solver r2) = SS_ok) (
     Inr g))))"

text \<open>The "Energy Balance Validation" cell; the report before it only prints.\<close>

definition mx_cell_energy_balance :: "'m framework \<Rightarrow> 'm globals \<Rightarrow> exn + 'm globals" where
  "mx_cell_energy_balance fw g =
     (let f1 = val fw (mixer_1 @ [''inlet_1'', ''flow_mol'', ''0'']) (m g);
          f2 = val fw (mixer_1 @ [''inlet_2'', ''flow_mol'', ''0'']) (m g);
          b1 = val fw (mixer_1 @ [''inlet_1'', ''mole_frac_comp'', ''0'', ''benzene'']) (m g);
          t2 = val fw (mixer_1 @ [''inlet_2'', ''mole_frac_comp'', ''0'', ''toluene'']) (m g);
          e1 = f1 * val fw (mixer_1 @ [''inlet_1_state'', ''0'', ''enth_mol_phase'', ''Liq'']) (m g);
          e2 = f2 * val fw (mixer_1 @ [''inlet_2_state'', ''0'', ''enth_mol_phase'', ''Liq'']) (m g);
          ho = val fw (mixer_1 @ [''mixed_state'', ''0'', ''enth_mol_phase'', ''Liq'']) (m g);
          fo = val fw (mixer_1 @ [''outlet'', ''flow_mol'', ''0'']) (m g)
      in Inr (g\<lparr>molflow_1 := Some f1, molflow_2 := Some f2, benzene_1 := Some b1,
                toluene_2 := Some t2, total_enthalpy_in1 := Some e1,
                total_enthalpy_in2 := Some e2, molar_enthalpy_out := Some ho,
                mole_flow_out := Some fo, total_enthalpy_out := Some (fo * ho)\<rparr>))"

definition mx_cell_test_case1 :: "'m framework \<Rightarrow> 'm globals \<Rightarrow> exn + 'm globals" where
  "mx_cell_test_case1 fw g =
     lookup_name (mole_flow_out g) (\<lambda>fo.
     py_assert (pytest_approx fo 200 (1 / 1000)) (
     py_assert (pytest_approx
                  (val fw (mixer_1 @ [''outlet'', ''mole_frac_comp'', ''0'', ''benzene'']) (m g))
                  (5 / 10) (1 / 1000)) (
     py_assert (pytest_approx
                  (val fw (mixer_1 @ [''outlet'', ''mole_frac_comp'', ''0'', ''toluene'']) (m g))
                  (5 / 10) (1 / 1000)) (
     py_assert (pytest_approx (val fw (mixer_1 @ [''outlet'', ''temperature'', ''0'']) (m g))
                  (35461 / 100) (1 / 100)) (
     py_assert (pytest_approx (val fw (mixer_1 @ [''outlet'', ''pressure'', ''0'']) (m g))
                  101325 1) (
     lookup_name (total_enthalpy_out g) (\<lambda>eo.
     lookup_name (total_enthalpy_in1 g) (\<lambda>e1.
     lookup_name (total_enthalpy_in2 g) (\<lambda>e2.
     py_assert (pytest_approx (eo - e1 - e2) 0 (1 / 100)) (
     Inr g))))))))))"

subsection \<open>Case 2\<close>

definition mx_cell_build_case2 :: "'m framework \<Rightarrow> 'm globals \<Rightarrow> exn + 'm globals" where
  "mx_cell_build_case2 fw g =
     Inr (g\<lparr>m := attach fw mixer_2
                    (Mixer \<lparr> property_package = [''fs'', ''properties''], num_inlets = None,
                             inlet_list = Some [''benzene_inlet'', ''toluene_inlet''],
                             momentum_mixing_type = MMT_equality \<rparr>) (m g)\<rparr>)"

definition mx_cell_dof_case2 :: "'m framework \<Rightarrow> 'm globals \<Rightarrow> exn + 'm globals" where
  "mx_cell_dof_case2 fw g = Inr (g\<lparr>DOF_init := Some (degrees_of_freedom fw mixer_2 (m g))\<rparr>)"

definition mx_cell_assert_dof_init :: "'m globals \<Rightarrow> exn + 'm globals" where
  "mx_cell_assert_dof_init g =
     lookup_name (DOF_init g) (\<lambda>d. py_assert (d = 9) (Inr g))"

definition mx_cell_fix_case2 :: "'m framework \<Rightarrow> 'm globals \<Rightarrow> exn + 'm globals" where
  "mx_cell_fix_case2 fw g =
     (let m1 = fix_var fw (mixer_2 @ [''benzene_inlet'', ''flow_mol'']) 100 (m g);
          m2 = fix_var fw (mixer_2 @ [''benzene_inlet'', ''mole_frac_comp'', ''0'', ''benzene'']) 1 m1;
          m3 = fix_var fw (mixer_2 @ [''benzene_inlet'', ''mole_frac_comp'', ''0'', ''toluene'']) 0 m2;
          m4 = fix_var fw (mixer_2 @ [''benzene_inlet'', ''pressure'']) 101325 m3;
          m5 = fix_var fw (mixer_2 @ [''benzene_inlet'', ''temperature'']) 353 m4;
          m6 = fix_var fw (mixer_2 @ [''toluene_inlet'', ''flow_mol'']) 100 m5;
          m7 = fix_var fw (mixer_2 @ [''toluene_inlet'', ''mole_frac_comp'', ''0'', ''benzene'']) 0 m6;
          m8 = fix_var fw (mixer_2 @ [''toluene_inlet'', ''mole_frac_comp'', ''0'', ''toluene'']) 1 m7;
          m9 = fix_var fw (mixer_2 @ [''toluene_inlet'', ''temperature'']) 356 m8
      in Inr (g\<lparr>m := m9, DOF_final := Some (degrees_of_freedom fw mixer_2 m9)\<rparr>))"

definition mx_cell_initialize_case2 :: "'m framework \<Rightarrow> 'm globals \<Rightarrow> exn + 'm globals" where
  "mx_cell_initialize_case2 fw g = Inr (g\<lparr>m := initialize fw mixer_2 (m g)\<rparr>)"

text \<open>\<^verbatim>\<open>opt = SolverFactory('ipopt'); result = opt.solve(m.fs.mixer_2, tee=True)\<close>.\<close>

definition mx_cell_solve_case2 :: "'m framework \<Rightarrow> 'm globals \<Rightarrow> exn + 'm globals" where
  "mx_cell_solve_case2 fw g =
     (let r = solve fw ''ipopt'' mixer_2 (m g)
      in Inr (g\<lparr>m := snd r, opt := Some ''ipopt'', result := Some (fst r)\<rparr>))"

definition mx_cell_test_solve_case2 :: "'m globals \<Rightarrow> exn + 'm globals" where
  "mx_cell_test_solve_case2 g =
     lookup_name (result g) (\<lambda>r1.
     py_assert (termination_condition (solver r1) = TC_optimal) (
     lookup_name (result g) (\<lambda>r2.
     py_assert (status (solver r2) = SS_ok) (
     Inr g))))"

definition mx_cell_test_case2 :: "'m framework \<Rightarrow> 'm globals \<Rightarrow> exn + 'm globals" where
  "mx_cell_test_case2 fw g =
     py_assert (pytest_approx (val fw (mixer_2 @ [''outlet'', ''flow_mol'', ''0'']) (m g))
                  200 (1 / 100)) (
     py_assert (pytest_approx
                  (val fw (mixer_2 @ [''outlet'', ''mole_frac_comp'', ''0'', ''benzene'']) (m g))
                  (5 / 10) (1 / 1000)) (
     py_assert (pytest_approx
                  (val fw (mixer_2 @ [''outlet'', ''mole_frac_comp'', ''0'', ''toluene'']) (m g))
                  (5 / 10) (1 / 1000)) (
     py_assert (pytest_approx (val fw (mixer_2 @ [''outlet'', ''temperature'', ''0'']) (m g))
                  (35461 / 100) (1 / 100)) (
     py_assert (pytest_approx (val fw (mixer_2 @ [''outlet'', ''pressure'', ''0'']) (m g))
                  101325 1) (
     Inr g)))))"

definition mx_cells :: "'m framework \<Rightarrow> ('m globals \<Rightarrow> exn + 'm globals) list" where
  "mx_cells fw =
     [mx_cell_build_case1 fw, mx_cell_assert_dof_initial, mx_cell_fix_case1 fw,
      mx_cell_assert_dof_final, mx_cell_initialize_case1 fw, mx_cell_solve_case1 fw,
      mx_cell_test_solve_case1, mx_cell_energy_balance fw, mx_cell_test_case1 fw,
      mx_cell_build_case2 fw, mx_cell_dof_case2 fw, mx_cell_assert_dof_init,
      mx_cell_fix_case2 fw, mx_cell_initialize_case2 fw, mx_cell_solve_case2 fw,
      mx_cell_test_solve_case2, mx_cell_test_case2 fw]"

definition mixer_notebook :: "'m framework \<Rightarrow> exn + 'm globals" where
  "mixer_notebook fw = run_cells (mx_cells fw) (mx_setup fw)"

section \<open>What is asked of a solve, and a framework to run the notebooks on\<close>

text \<open>
  A solve has converged when its results carry the two values the testing cells look for.
\<close>

definition converged :: "SolverResults \<Rightarrow> bool" where
  "converged r \<longleftrightarrow> termination_condition (solver r) = TC_optimal \<and> status (solver r) = SS_ok"

text \<open>
  An executable instance of the record, to run the cells on concrete data; it stands in
  for the real framework only as an example of one. Its model is the list of
  fixed variables and a store of values; its solver answers from a table (\<open>res\<close> for the
  results object, \<open>sol\<close> for the solution) and the solution is loaded for the variables of
  the block solved. The count of degrees of freedom is ten less the fixed variables of the
  block.
\<close>

record demo_model =
  fixed :: "path list"
  store :: "(path \<times> real) list"

definition demo_framework ::
  "(demo_model \<Rightarrow> SolverResults) \<Rightarrow> (demo_model \<Rightarrow> (path \<times> real) list) \<Rightarrow> demo_model framework"
where
  "demo_framework res sol =
     \<lparr> ConcreteModel = \<lparr> fixed = [], store = [] \<rparr>,
       attach = (\<lambda>p c mdl. mdl),
       fix_var = (\<lambda>p x mdl. \<lparr> fixed = p # filter (\<lambda>q. q \<noteq> p) (fixed mdl),
                                store = (p, x) # store mdl \<rparr>),
       unfix_var = (\<lambda>p mdl. mdl\<lparr> fixed := filter (\<lambda>q. q \<noteq> p) (fixed mdl) \<rparr>),
       degrees_of_freedom = (\<lambda>b mdl. 10 - int (length (filter (prefix b) (fixed mdl)))),
       initialize = (\<lambda>b mdl. mdl),
       solve = (\<lambda>s b mdl.
                  (res mdl, mdl\<lparr> store := filter (\<lambda>e. prefix b (fst e)) (sol mdl) @ store mdl \<rparr>)),
       val = (\<lambda>p mdl. case map_of (store mdl) p of None \<Rightarrow> 0 | Some x \<Rightarrow> x),
       htpx = (\<lambda>T P. 0) \<rparr>"

text \<open>
  A solver for the heat exchanger that converges while the area is fixed (Option 1) and
  stops at its iteration limit, close to the solution, once the area is free (Option 2).
\<close>

definition hx_demo_results :: "demo_model \<Rightarrow> SolverResults" where
  "hx_demo_results mdl =
     (if heat_exchanger @ [''area''] \<in> set (fixed mdl)
      then \<lparr> solver = \<lparr> termination_condition = TC_optimal, status = SS_ok \<rparr> \<rparr>
      else \<lparr> solver = \<lparr> termination_condition = TC_maxIterations, status = SS_warning \<rparr> \<rparr>)"

definition hx_demo_solution :: "demo_model \<Rightarrow> (path \<times> real) list" where
  "hx_demo_solution mdl =
     (if heat_exchanger @ [''area''] \<in> set (fixed mdl)
      then [(heat_exchanger @ [''shell'', ''properties_out'', ''0'', ''temperature''], 37313 / 100),
            (heat_exchanger @ [''tube'', ''properties_out'', ''0'', ''temperature''], 36924 / 100)]
      else [(heat_exchanger @ [''area''], 20026 / 100),
            (heat_exchanger @ [''tube'', ''properties_out'', ''0'', ''temperature''], 37127 / 100)])"

definition hx_demo :: "demo_model framework" where
  "hx_demo = demo_framework hx_demo_results hx_demo_solution"

definition hx_demo_specified :: "demo_model globals" where
  "hx_demo_specified = fresh_globals \<lparr> fixed = [heat_exchanger @ [''area'']], store = [] \<rparr>"

definition hx_demo_solved_twice :: "demo_model globals" where
  "hx_demo_solved_twice =
     hx_demo_specified
       \<lparr> m := \<lparr> fixed = [heat_exchanger @ [''shell_outlet'', ''enth_mol'']],
                store =
                  [(heat_exchanger @ [''area''], 20026 / 100),
                   (heat_exchanger @ [''tube'', ''properties_out'', ''0'', ''temperature''], 37127 / 100),
                   (heat_exchanger @ [''shell_outlet'', ''enth_mol''], 0),
                   (heat_exchanger @ [''shell'', ''properties_out'', ''0'', ''temperature''], 37313 / 100),
                   (heat_exchanger @ [''tube'', ''properties_out'', ''0'', ''temperature''], 36924 / 100)] \<rparr>,
         opt := Some ''ipopt'',
         solve_status := Some \<lparr> solver = \<lparr> termination_condition = TC_optimal, status = SS_ok \<rparr> \<rparr>,
         result := Some \<lparr> solver = \<lparr> termination_condition = TC_maxIterations, status = SS_warning \<rparr> \<rparr> \<rparr>"

text \<open>The heat-exchanger notebook on \<open>hx_demo\<close>, after the cell that checks \<open>DOF_final\<close>.\<close>

definition hx_demo_dof_checked :: "demo_model globals" where
  "hx_demo_dof_checked =
     (fresh_globals
        \<lparr> fixed =
            [heat_exchanger @ [''overall_heat_transfer_coefficient'', ''0''],
             heat_exchanger @ [''area''],
             heat_exchanger @ [''tube_inlet'', ''temperature'', ''0''],
             heat_exchanger @ [''tube_inlet'', ''pressure''],
             heat_exchanger @ [''tube_inlet'', ''mole_frac_comp'', ''0'', ''toluene''],
             heat_exchanger @ [''tube_inlet'', ''mole_frac_comp'', ''0'', ''benzene''],
             heat_exchanger @ [''tube_inlet'', ''flow_mol''],
             heat_exchanger @ [''shell_inlet'', ''enth_mol''],
             heat_exchanger @ [''shell_inlet'', ''pressure''],
             heat_exchanger @ [''shell_inlet'', ''flow_mol'']],
          store =
            [(heat_exchanger @ [''overall_heat_transfer_coefficient'', ''0''], 500),
             (heat_exchanger @ [''area''], 50),
             (heat_exchanger @ [''tube_inlet'', ''temperature'', ''0''], 350),
             (heat_exchanger @ [''tube_inlet'', ''pressure''], 101325),
             (heat_exchanger @ [''tube_inlet'', ''mole_frac_comp'', ''0'', ''toluene''], 6 / 10),
             (heat_exchanger @ [''tube_inlet'', ''mole_frac_comp'', ''0'', ''benzene''], 4 / 10),
             (heat_exchanger @ [''tube_inlet'', ''flow_mol''], 250),
             (heat_exchanger @ [''shell_inlet'', ''enth_mol''], 0),
             (heat_exchanger @ [''shell_inlet'', ''pressure''], 101325),
             (heat_exchanger @ [''shell_inlet'', ''flow_mol''], 100)] \<rparr>)
       \<lparr> DOF_initial := Some 7, DOF_final := Some 0, h := Some 0 \<rparr>"

section \<open>Properties\<close>

lemma run_cells_Cons_Inr:
  "run_cells (c # cs) g = Inr g' \<longleftrightarrow> (\<exists>g1. c g = Inr g1 \<and> run_cells cs g1 = Inr g')"
  by (cases "c g") simp_all

lemma hx_cell_solve_option1_Inr:
  "hx_cell_solve_option1 fw g = Inr g' \<Longrightarrow>
     solve_status g' = Some (fst (solve fw ''ipopt'' [] (initialize fw heat_exchanger (m g))))"
  by (auto simp: hx_cell_solve_option1_def Let_def)

lemma hx_cell_test_option1_Inr:
  "hx_cell_test_option1 fw g = Inr g' \<Longrightarrow>
     g' = g \<and> (\<exists>s. solve_status g = Some s \<and> converged s)"
  by (auto simp: hx_cell_test_option1_def lookup_name_def py_assert_def converged_def
           split: option.splits if_splits)

lemma hx_cell_respecify_Inr:
  "hx_cell_respecify fw g = Inr g' \<Longrightarrow> solve_status g' = solve_status g"
  by (auto simp: hx_cell_respecify_def Let_def)

lemma hx_cell_solve_option2_Inr:
  "hx_cell_solve_option2 fw g = Inr g' \<Longrightarrow> solve_status g' = solve_status g"
  by (auto simp: hx_cell_solve_option2_def lookup_name_def Let_def split: option.splits)

lemma hx_option2_status_asserts_read:
  "hx_option2_status_asserts g =
     (case solve_status g of
        None \<Rightarrow> Inl NameError
      | Some s \<Rightarrow> if converged s then Inr () else Inl AssertionError)"
  by (simp add: hx_option2_status_asserts_def lookup_name_def py_assert_def converged_def
           split: option.splits)

text \<open>
  C9: in the Option 2 testing cell of the heat-exchanger notebook the two assertions on the
  solver are evaluated against \<open>solve_status\<close> and not against \<open>result\<close>: whatever
  \<open>result\<close> holds, they raise \<open>NameError\<close> when \<open>solve_status\<close> is unbound, pass when
  it holds a converged results object and raise \<open>AssertionError\<close> when it holds any
  other. In a run, \<open>solve_status\<close> at that cell is still what the Option 1 solve returned,
  so once the Option 1 testing cell has passed they pass whatever the Option 2 solve has
  put in \<open>result\<close>.
\<close>

theorem hx_option2_status_asserts_read_option1_solve:
  assumes "run_cells [hx_cell_solve_option1 fw, hx_cell_test_option1 fw,
                      hx_cell_respecify fw, hx_cell_solve_option2 fw] g0 = Inr g3"
  shows "hx_option2_status_asserts (g\<lparr>result := q\<rparr>) =
           (case solve_status g of
              None \<Rightarrow> Inl NameError
            | Some s \<Rightarrow> if converged s then Inr () else Inl AssertionError)
       \<and> solve_status g3 = Some (fst (solve fw ''ipopt'' [] (initialize fw heat_exchanger (m g0))))
       \<and> hx_option2_status_asserts (g3\<lparr>result := r\<rparr>) = Inr ()"
proof -
  have reads: "hx_option2_status_asserts (g\<lparr>result := q\<rparr>) =
           (case solve_status g of
              None \<Rightarrow> Inl NameError
            | Some s \<Rightarrow> if converged s then Inr () else Inl AssertionError)"
    unfolding hx_option2_status_asserts_read by simp
  from assms obtain g1 g2 g2' where
    a: "hx_cell_solve_option1 fw g0 = Inr g1" and
    b: "hx_cell_test_option1 fw g1 = Inr g2" and
    c: "hx_cell_respecify fw g2 = Inr g2'" and
    d: "hx_cell_solve_option2 fw g2' = Inr g3"
    unfolding run_cells_Cons_Inr by auto
  from b have g2: "g2 = g1" and ok: "\<exists>s. solve_status g1 = Some s \<and> converged s"
    by (auto dest: hx_cell_test_option1_Inr)
  have keep: "solve_status g3 = solve_status g1"
    using hx_cell_respecify_Inr [OF c] hx_cell_solve_option2_Inr [OF d] g2 by simp
  have "solve_status (g3\<lparr>result := r\<rparr>) = solve_status g1"
    using keep by simp
  with ok have passes: "hx_option2_status_asserts (g3\<lparr>result := r\<rparr>) = Inr ()"
    unfolding hx_option2_status_asserts_read by auto
  have from1: "solve_status g3
      = Some (fst (solve fw ''ipopt'' [] (initialize fw heat_exchanger (m g0))))"
    using keep hx_cell_solve_option1_Inr [OF a] by simp
  from reads from1 passes show ?thesis by blast
qed

lemma hx_demo_two_solves:
  "run_cells [hx_cell_solve_option1 hx_demo, hx_cell_test_option1 hx_demo,
              hx_cell_respecify hx_demo, hx_cell_solve_option2 hx_demo] hx_demo_specified
     = Inr hx_demo_solved_twice"
  by (simp add: hx_demo_def demo_framework_def hx_demo_specified_def hx_demo_solved_twice_def
      fresh_globals_def hx_cell_solve_option1_def hx_cell_test_option1_def hx_cell_respecify_def
      hx_cell_solve_option2_def lookup_name_def py_assert_def pytest_approx_def
      heat_exchanger_def hx_demo_results_def hx_demo_solution_def Let_def)

text \<open>
  The run on \<open>hx_demo\<close>: the Option 2 solve has not converged and the assertions pass;
  and the same state with the two results objects exchanged, where the assertions raise
  although \<open>result\<close> is converged.
\<close>

theorem hx_option2_status_asserts_read_option1_solve_witness:
  "run_cells [hx_cell_solve_option1 hx_demo, hx_cell_test_option1 hx_demo,
              hx_cell_respecify hx_demo, hx_cell_solve_option2 hx_demo] hx_demo_specified
     = Inr hx_demo_solved_twice
   \<and> result hx_demo_solved_twice
     = Some \<lparr> solver = \<lparr> termination_condition = TC_maxIterations, status = SS_warning \<rparr> \<rparr>
   \<and> solve_status hx_demo_solved_twice
     = Some \<lparr> solver = \<lparr> termination_condition = TC_optimal, status = SS_ok \<rparr> \<rparr>
   \<and> hx_option2_status_asserts hx_demo_solved_twice = Inr ()
   \<and> hx_option2_status_asserts
       (hx_demo_solved_twice
          \<lparr> solve_status :=
              Some \<lparr> solver = \<lparr> termination_condition = TC_maxIterations, status = SS_warning \<rparr> \<rparr>,
            result :=
              Some \<lparr> solver = \<lparr> termination_condition = TC_optimal, status = SS_ok \<rparr> \<rparr> \<rparr>)
     = Inl AssertionError
   \<and> hx_option2_status_asserts
       (hx_demo_solved_twice
          \<lparr> solve_status := None,
            result :=
              Some \<lparr> solver = \<lparr> termination_condition = TC_optimal, status = SS_ok \<rparr> \<rparr> \<rparr>)
     = Inl NameError"
proof -
  have run: "run_cells [hx_cell_solve_option1 hx_demo, hx_cell_test_option1 hx_demo,
              hx_cell_respecify hx_demo, hx_cell_solve_option2 hx_demo] hx_demo_specified
     = Inr hx_demo_solved_twice"
    by (rule hx_demo_two_solves)
  have same: "hx_demo_solved_twice\<lparr>result := result hx_demo_solved_twice\<rparr> = hx_demo_solved_twice"
    by simp
  have res: "result hx_demo_solved_twice
     = Some \<lparr> solver = \<lparr> termination_condition = TC_maxIterations, status = SS_warning \<rparr> \<rparr>"
    by (simp add: hx_demo_solved_twice_def)
  have sta: "solve_status hx_demo_solved_twice
     = Some \<lparr> solver = \<lparr> termination_condition = TC_optimal, status = SS_ok \<rparr> \<rparr>"
    by (simp add: hx_demo_solved_twice_def)
  have pass: "hx_option2_status_asserts hx_demo_solved_twice = Inr ()"
    using hx_option2_status_asserts_read_option1_solve
            [OF run, where g = hx_demo_solved_twice and q = "result hx_demo_solved_twice"
                       and r = "result hx_demo_solved_twice"]
    unfolding same by blast
  have raise: "hx_option2_status_asserts
       (hx_demo_solved_twice
          \<lparr> solve_status :=
              Some \<lparr> solver = \<lparr> termination_condition = TC_maxIterations, status = SS_warning \<rparr> \<rparr>,
            result :=
              Some \<lparr> solver = \<lparr> termination_condition = TC_optimal, status = SS_ok \<rparr> \<rparr> \<rparr>)
     = Inl AssertionError"
    using hx_option2_status_asserts_read_option1_solve
            [OF run,
             where g = "hx_demo_solved_twice
                   \<lparr> solve_status :=
                       Some \<lparr> solver = \<lparr> termination_condition = TC_maxIterations,
                                          status = SS_warning \<rparr> \<rparr> \<rparr>"
               and q = "Some \<lparr> solver = \<lparr> termination_condition = TC_optimal, status = SS_ok \<rparr> \<rparr>"
               and r = "result hx_demo_solved_twice", THEN conjunct1]
    by (simp add: converged_def)
  have unbound: "hx_option2_status_asserts
       (hx_demo_solved_twice
          \<lparr> solve_status := None,
            result :=
              Some \<lparr> solver = \<lparr> termination_condition = TC_optimal, status = SS_ok \<rparr> \<rparr> \<rparr>)
     = Inl NameError"
    using hx_option2_status_asserts_read_option1_solve
            [OF run, where g = "hx_demo_solved_twice \<lparr> solve_status := None \<rparr>"
               and q = "Some \<lparr> solver = \<lparr> termination_condition = TC_optimal, status = SS_ok \<rparr> \<rparr>"
               and r = "result hx_demo_solved_twice", THEN conjunct1]
    by simp
  from run res sta pass raise unbound show ?thesis by blast
qed

subsection \<open>The solver checks after each solve\<close>

lemma mx_solve_case1_failure_raises:
  "\<not> converged (fst (solve fw ''ipopt'' [] (m g))) \<Longrightarrow>
     run_cells [mx_cell_solve_case1 fw, mx_cell_test_solve_case1] g = Inl AssertionError"
  by (auto simp: mx_cell_solve_case1_def mx_cell_test_solve_case1_def lookup_name_def
        py_assert_def converged_def Let_def)

lemma mx_solve_case2_failure_raises:
  "\<not> converged (fst (solve fw ''ipopt'' mixer_2 (m g))) \<Longrightarrow>
     run_cells [mx_cell_solve_case2 fw, mx_cell_test_solve_case2] g = Inl AssertionError"
  by (auto simp: mx_cell_solve_case2_def mx_cell_test_solve_case2_def lookup_name_def
        py_assert_def converged_def Let_def)

lemma hx_solve_option1_failure_raises:
  "\<not> converged (fst (solve fw ''ipopt'' [] (initialize fw heat_exchanger (m g)))) \<Longrightarrow>
     run_cells [hx_cell_solve_option1 fw, hx_cell_test_option1 fw] g = Inl AssertionError"
  by (auto simp: hx_cell_solve_option1_def hx_cell_test_option1_def lookup_name_def
        py_assert_def converged_def Let_def)

lemma hx_demo_first_half:
  "run_cells [hx_cell_build hx_demo, hx_cell_assert_dof_initial, hx_cell_fix_shell hx_demo,
              hx_cell_fix_tube hx_demo, hx_cell_fix_design hx_demo, hx_cell_assert_dof_final]
             (hx_setup hx_demo) = Inr hx_demo_dof_checked"
  by (simp add: hx_demo_def demo_framework_def hx_setup_def hx_demo_dof_checked_def
      fresh_globals_def hx_cell_build_def hx_cell_assert_dof_initial_def hx_cell_fix_shell_def
      hx_cell_fix_tube_def hx_cell_fix_design_def hx_cell_assert_dof_final_def
      lookup_name_def py_assert_def heat_exchanger_def Let_def)

lemma run_cells_append:
  "run_cells (cs @ ds) g = (case run_cells cs g of Inl e \<Rightarrow> Inl e | Inr g' \<Rightarrow> run_cells ds g')"
  by (induction cs arbitrary: g) (auto split: sum.splits)

lemma hx_cells_split:
  "hx_cells fw =
     [hx_cell_build fw, hx_cell_assert_dof_initial, hx_cell_fix_shell fw,
      hx_cell_fix_tube fw, hx_cell_fix_design fw, hx_cell_assert_dof_final]
     @ [hx_cell_solve_option1 fw, hx_cell_test_option1 fw, hx_cell_respecify fw,
        hx_cell_solve_option2 fw, hx_cell_test_option2 fw]"
  by (simp add: hx_cells_def)

lemma hx_demo_second_half:
  "map_sum id result
     (run_cells [hx_cell_solve_option1 hx_demo, hx_cell_test_option1 hx_demo,
                 hx_cell_respecify hx_demo, hx_cell_solve_option2 hx_demo,
                 hx_cell_test_option2 hx_demo] hx_demo_dof_checked)
   = Inr (Some \<lparr> solver = \<lparr> termination_condition = TC_maxIterations, status = SS_warning \<rparr> \<rparr>)"
  by (simp add: hx_demo_def demo_framework_def hx_demo_dof_checked_def
      fresh_globals_def hx_cell_solve_option1_def hx_cell_test_option1_def hx_cell_respecify_def
      hx_cell_solve_option2_def hx_cell_test_option2_def hx_option2_status_asserts_def
      hx_option2_value_asserts_def lookup_name_def py_assert_def pytest_approx_def
      heat_exchanger_def hx_demo_results_def hx_demo_solution_def Let_def)

text \<open>
  C6: a run of the heat-exchanger notebook in which the Option 2 solve stops at its
  iteration limit with a warning, and every cell passes all the same: the Option 2
  testing cell checks \<open>solve_status\<close>, not the \<open>result\<close> of the solve before it.
\<close>

theorem hx_notebook_passes_after_failed_option2_solve:
  "map_sum id result (hx_notebook hx_demo)
     = Inr (Some \<lparr> solver = \<lparr> termination_condition = TC_maxIterations, status = SS_warning \<rparr> \<rparr>)
   \<and> \<not> converged \<lparr> solver = \<lparr> termination_condition = TC_maxIterations, status = SS_warning \<rparr> \<rparr>"
proof -
  have "map_sum id result (hx_notebook hx_demo)
     = Inr (Some \<lparr> solver = \<lparr> termination_condition = TC_maxIterations, status = SS_warning \<rparr> \<rparr>)"
    unfolding hx_notebook_def hx_cells_split run_cells_append hx_demo_first_half
    using hx_demo_second_half by simp
  then show ?thesis by (simp add: converged_def)
qed

subsection \<open>The block handed to the solver\<close>

text \<open>
  The Case 1 solve of the mixer notebook hands the whole model to the solver, the Case 2
  solve the block \<open>fs.mixer_2\<close>. What the solver then writes into the model is its own
  affair: the cells say no more than which block it is given.
\<close>

lemma mx_cell_solve_case1_whole_model:
  "mx_cell_solve_case1 fw g = Inr g' \<Longrightarrow> m g' = snd (solve fw ''ipopt'' [] (m g))"
  by (auto simp: mx_cell_solve_case1_def Let_def)

lemma mx_cell_solve_case2_subblock:
  "mx_cell_solve_case2 fw g = Inr g' \<Longrightarrow> m g' = snd (solve fw ''ipopt'' mixer_2 (m g))"
  by (auto simp: mx_cell_solve_case2_def Let_def)

end
